theory Spec2Isabelle
  imports Complex_Main
begin

section \<open>Poker hand detection in podcast transcripts (src/src/cli.py)\<close>

text \<open>
  The development embeds \<^verbatim>\<open>PokerHandAnalyzer.detect_hands\<close> and
  \<^verbatim>\<open>PokerHandAnalyzer.generate_report\<close>.

  Conventions of the embedding.
  \<^item> A Python \<^verbatim>\<open>str\<close> is a \<open>string\<close>; a \<open>char\<close> is read as the code point of the same
    number, so the texts covered are those over U+0000..U+00FF.
  \<^item> Python integers are \<open>int\<close>.
  \<^item> A finite Python float is the rational number it denotes (\<open>rat\<close>). The operations
    of the source whose binary64 result is exact are exact here as well: \<^verbatim>\<open>total_score / 8.0\<close>
    (a division by a power of two of an integer below \<open>2^53\<close>), \<^verbatim>\<open>min\<close>, and \<^verbatim>\<open>//\<close>
    and \<^verbatim>\<open>%\<close> by 60 on a non-negative timestamp. The two operations that may round in
    binary64, \<^verbatim>\<open>segment["end"] - segment["start"]\<close> and the mean of the confidences in the
    report, are written as the exact rational operations. The only durations read
    below are differences of small integers, which binary64 computes exactly, and no
    property below reads the mean of a non-empty list.
\<close>

subsection \<open>Characters\<close>

definition is_space :: "char \<Rightarrow> bool" where
  \<comment> \<open>\<^verbatim>\<open>\s\<close> of a \<^verbatim>\<open>str\<close> pattern and \<^verbatim>\<open>str.isspace\<close>, below U+0100\<close>
  "is_space c =
     (let n = (of_char c :: nat)
      in (9 \<le> n \<and> n \<le> 13) \<or> (28 \<le> n \<and> n \<le> 32) \<or> n = 133 \<or> n = 160)"

definition is_digit :: "char \<Rightarrow> bool" where
  \<comment> \<open>\<^verbatim>\<open>\d\<close>, below U+0100\<close>
  "is_digit c = (let n = (of_char c :: nat) in 48 \<le> n \<and> n \<le> 57)"

definition lower_char :: "char \<Rightarrow> char" where
  "lower_char c =
     (let n = (of_char c :: nat)
      in if (65 \<le> n \<and> n \<le> 90) \<or> (192 \<le> n \<and> n \<le> 222 \<and> n \<noteq> 215)
         then char_of (n + 32) else c)"

definition lower :: "string \<Rightarrow> string" where
  \<comment> \<open>\<^verbatim>\<open>str.lower()\<close>\<close>
  "lower s = map lower_char s"

subsection \<open>Regular expressions of the \<^verbatim>\<open>re\<close> module\<close>

text \<open>
  Only the constructs that the pattern lists of \<^verbatim>\<open>detect_hands\<close> use: literals, \<^verbatim>\<open>.\<close>,
  \<^verbatim>\<open>\d\<close>, \<^verbatim>\<open>\s\<close>, concatenation, alternation, the greedy \<^verbatim>\<open>?\<close> on a group or a
  character, and the greedy \<^verbatim>\<open>*\<close> and \<^verbatim>\<open>+\<close>, which the patterns apply to single
  characters only. All groups of the source are non-capturing.
\<close>

datatype cclass = Ch char | Dot | Digit | Space

datatype regex =
    One cclass
  | Lit string
  | Cat regex regex
  | Alt regex regex
  | Opt regex
  | Star cclass
  | Plus cclass

fun cmatch :: "cclass \<Rightarrow> char \<Rightarrow> bool" where
  "cmatch (Ch c) x = (x = c)"
| "cmatch Dot x = (x \<noteq> CHR 0x0A)"
| "cmatch Digit x = is_digit x"
| "cmatch Space x = is_space x"

fun starts_with :: "string \<Rightarrow> string \<Rightarrow> bool" where
  "starts_with [] s = True"
| "starts_with (c # w) [] = False"
| "starts_with (c # w) (x # s) = (c = x \<and> starts_with w s)"

text \<open>
  \<open>rmatch r s\<close> lists what is left of \<open>s\<close> after each way of matching \<open>r\<close> at the start
  of \<open>s\<close>, in the order in which the backtracking matcher tries them: the left branch
  of an alternation first, the longest repetition first.
\<close>

fun rmatch :: "regex \<Rightarrow> string \<Rightarrow> string list" where
  "rmatch (One c) [] = []"
| "rmatch (One c) (x # s) = (if cmatch c x then [s] else [])"
| "rmatch (Lit w) s = (if starts_with w s then [drop (length w) s] else [])"
| "rmatch (Cat a b) s = concat (map (rmatch b) (rmatch a s))"
| "rmatch (Alt a b) s = rmatch a s @ rmatch b s"
| "rmatch (Opt a) s = rmatch a s @ [s]"
| "rmatch (Star c) [] = [[]]"
| "rmatch (Star c) (x # s) = (if cmatch c x then rmatch (Star c) s @ [x # s] else [x # s])"
| "rmatch (Plus c) [] = []"
| "rmatch (Plus c) (x # s) = (if cmatch c x then rmatch (Star c) s else [])"

fun re_search :: "regex \<Rightarrow> string \<Rightarrow> bool" where
  \<comment> \<open>\<^verbatim>\<open>re.search(pattern, s)\<close> is not \<^verbatim>\<open>None\<close>: a match starts at some position of \<open>s\<close>\<close>
  "re_search r [] = (rmatch r [] \<noteq> [])"
| "re_search r (x # s) = (rmatch r (x # s) \<noteq> [] \<or> re_search r s)"

text \<open>
  \<^verbatim>\<open>re.findall(pattern, s)\<close> without capturing groups: the matched substrings, scanning
  from the left, each search starting where the previous match ended. After an empty
  match the next match may not be empty at the same position (\<open>adv\<close>).
\<close>

function findall_from :: "regex \<Rightarrow> bool \<Rightarrow> string \<Rightarrow> string list" where
  "findall_from r adv s =
     (case filter (\<lambda>rest. \<not> adv \<or> length rest < length s) (rmatch r s) of
        [] \<Rightarrow> (case s of [] \<Rightarrow> [] | x # s' \<Rightarrow> findall_from r False s')
      | rest # _ \<Rightarrow>
          if length rest < length s
          then take (length s - length rest) s # findall_from r False rest
          else if adv then [] else [] # findall_from r True s)"
  by pat_completeness auto
termination
  by (relation "measures [\<lambda>(r, adv, s). length s, \<lambda>(r, adv, s). if adv then 0 else 1]") auto

definition findall :: "regex \<Rightarrow> string \<Rightarrow> string list" where
  "findall r s = findall_from r False s"

fun alts :: "regex list \<Rightarrow> regex" where
  \<comment> \<open>\<^verbatim>\<open>a|b|c\<close>, tried from the left\<close>
  "alts [] = Lit []"
| "alts [r] = r"
| "alts (r # rs) = Alt r (alts rs)"

fun cats :: "regex list \<Rightarrow> regex" where
  "cats [] = Lit []"
| "cats [r] = r"
| "cats (r # rs) = Cat r (cats rs)"

definition lits :: "string list \<Rightarrow> regex" where
  \<comment> \<open>an alternation of literal words, \<^verbatim>\<open>(?:w1|w2|...)\<close>\<close>
  "lits ws = alts (map Lit ws)"

subsection \<open>The pattern lists of \<^verbatim>\<open>detect_hands\<close>\<close>

abbreviation ws1 :: regex where
  \<comment> \<open>\<^verbatim>\<open>\s+\<close>\<close>
  "ws1 \<equiv> Plus Space"

abbreviation opt_ch :: "char \<Rightarrow> regex" where
  \<comment> \<open>\<^verbatim>\<open>c?\<close>\<close>
  "opt_ch c \<equiv> Opt (One (Ch c))"

definition all_in :: regex where
  \<comment> \<open>\<^verbatim>\<open>all.?in\<close>\<close>
  "all_in = cats [Lit ''all'', Opt (One Dot), Lit ''in'']"

definition hand_start_patterns :: "regex list" where
  \<open>hand_start_patterns =
   [ \<comment> \<open>\<^verbatim>\<open>(?:i|we|he|she|they|villain|hero|player)\s+(?:have|had|got dealt|was dealt|held|pick up)\s+(?:pocket|hole cards?)\<close>\<close>
     cats [lits [''i'', ''we'', ''he'', ''she'', ''they'', ''villain'', ''hero'', ''player''], ws1,
           lits [''have'', ''had'', ''got dealt'', ''was dealt'', ''held'', ''pick up''], ws1,
           alts [Lit ''pocket'', Cat (Lit ''hole card'') (opt_ch CHR ''s'')]],
     \<comment> \<open>\<^verbatim>\<open>(?:with|holding|dealt)\s+(?:pocket|ace|king|queen|jack|\d+)\<close>\<close>
     cats [lits [''with'', ''holding'', ''dealt''], ws1,
           alts [Lit ''pocket'', Lit ''ace'', Lit ''king'', Lit ''queen'', Lit ''jack'', Plus Digit]],
     \<comment> \<open>\<^verbatim>\<open>(?:preflop|pre-flop).*(?:raise|call|fold|all.?in)\<close>\<close>
     cats [lits [''preflop'', ''pre-flop''], Star Dot,
           alts [Lit ''raise'', Lit ''call'', Lit ''fold'', all_in]],
     \<comment> \<open>\<^verbatim>\<open>(?:flop|turn|river)\s+(?:comes?|brings?|is|was)\<close>\<close>
     cats [lits [''flop'', ''turn'', ''river''], ws1,
           alts [Cat (Lit ''come'') (opt_ch CHR ''s''), Cat (Lit ''bring'') (opt_ch CHR ''s''),
                 Lit ''is'', Lit ''was'']],
     \<comment> \<open>\<^verbatim>\<open>board\s+(?:comes?|is|was|reads?)\<close>\<close>
     cats [Lit ''board'', ws1,
           alts [Cat (Lit ''come'') (opt_ch CHR ''s''), Lit ''is'', Lit ''was'',
                 Cat (Lit ''read'') (opt_ch CHR ''s'')]],
     \<comment> \<open>\<^verbatim>\<open>hand\s+(?:analysis|breakdown|review|discussion)\<close>\<close>
     cats [Lit ''hand'', ws1, lits [''analysis'', ''breakdown'', ''review'', ''discussion'']],
     \<comment> \<open>\<^verbatim>\<open>(?:let's|we'll|i'll)\s+(?:talk about|discuss|analyze|break down|look at)\s+(?:this|a|the)\s+hand\<close>\<close>
     cats [alts [Lit (''let'' @ [CHR 0x27] @ ''s''), Lit (''we'' @ [CHR 0x27] @ ''ll''),
                 Lit (''i'' @ [CHR 0x27] @ ''ll'')], ws1,
           lits [''talk about'', ''discuss'', ''analyze'', ''break down'', ''look at''], ws1,
           lits [''this'', ''a'', ''the''], ws1, Lit ''hand''] ]\<close>

definition suit_letter :: regex where
  \<comment> \<open>\<^verbatim>\<open>(?:s|h|d|c)?\<close>\<close>
  "suit_letter = Opt (lits [''s'', ''h'', ''d'', ''c''])"

definition rank_letter :: regex where
  \<comment> \<open>the first and third group of the fourth card pattern: the letters are capitals, and the
      pattern is compiled without \<^verbatim>\<open>re.IGNORECASE\<close>\<close>
  "rank_letter = alts [Lit ''A'', Lit ''K'', Lit ''Q'', Lit ''J'', Lit ''T'', One Digit]"

definition card_patterns :: "regex list" where
  \<open>card_patterns =
   [ \<comment> \<open>\<^verbatim>\<open>(?:ace|king|queen|jack|\d+)(?:\s+of\s+(?:hearts|diamonds|clubs|spades))?\<close>\<close>
     Cat (alts [Lit ''ace'', Lit ''king'', Lit ''queen'', Lit ''jack'', Plus Digit])
         (Opt (cats [ws1, Lit ''of'', ws1, lits [''hearts'', ''diamonds'', ''clubs'', ''spades'']])),
     \<comment> \<open>\<^verbatim>\<open>pocket\s+(?:aces|kings|queens|jacks|tens|nines|eights|sevens|sixes|fives|fours|threes|twos|deuces)\<close>\<close>
     cats [Lit ''pocket'', ws1,
           lits [''aces'', ''kings'', ''queens'', ''jacks'', ''tens'', ''nines'', ''eights'', ''sevens'',
                 ''sixes'', ''fives'', ''fours'', ''threes'', ''twos'', ''deuces'']],
     \<comment> \<open>\<^verbatim>\<open>(?:suited|offsuit)\s+(?:ace|king|queen|jack)\<close>\<close>
     cats [lits [''suited'', ''offsuit''], ws1, lits [''ace'', ''king'', ''queen'', ''jack'']],
     \<comment> \<open>\<^verbatim>\<open>(?:A|K|Q|J|T|\d)(?:s|h|d|c)?\s*(?:A|K|Q|J|T|\d)(?:s|h|d|c)?\<close>\<close>
     cats [rank_letter, suit_letter, Star Space, rank_letter, suit_letter] ]\<close>

definition bet_suffix :: regex where
  \<comment> \<open>\<^verbatim>\<open>.?bet(?:s|ting)?\<close>\<close>
  "bet_suffix = cats [Opt (One Dot), Lit ''bet'', Opt (lits [''s'', ''ting''])]"

definition action_patterns :: "regex list" where
  \<open>action_patterns =
   [ \<comment> \<open>\<^verbatim>\<open>(?:raises?|calls?|folds?|checks?|bets?|all.?in|shoves?|jams?)\s+(?:to\s+)?\$?\d+\<close>\<close>
     cats [alts [Cat (Lit ''raise'') (opt_ch CHR ''s''), Cat (Lit ''call'') (opt_ch CHR ''s''),
                 Cat (Lit ''fold'') (opt_ch CHR ''s''), Cat (Lit ''check'') (opt_ch CHR ''s''),
                 Cat (Lit ''bet'') (opt_ch CHR ''s''), all_in,
                 Cat (Lit ''shove'') (opt_ch CHR ''s''), Cat (Lit ''jam'') (opt_ch CHR ''s'')],
           ws1, Opt (Cat (Lit ''to'') ws1), opt_ch CHR ''$'', Plus Digit],
     \<comment> \<open>\<^verbatim>\<open>(?:three|3).?bet(?:s|ting)?\<close>\<close>
     Cat (lits [''three'', ''3'']) bet_suffix,
     \<comment> \<open>\<^verbatim>\<open>(?:four|4).?bet(?:s|ting)?\<close>\<close>
     Cat (lits [''four'', ''4'']) bet_suffix,
     \<comment> \<open>\<^verbatim>\<open>check.?raise\<close>\<close>
     cats [Lit ''check'', Opt (One Dot), Lit ''raise''],
     \<comment> \<open>\<^verbatim>\<open>continuation\s+bet|c.?bet\<close>\<close>
     Alt (cats [Lit ''continuation'', ws1, Lit ''bet''])
         (cats [Lit ''c'', Opt (One Dot), Lit ''bet'']) ]\<close>

definition context_words :: "string list" where
  "context_words = [''preflop'', ''flop'', ''turn'', ''river'', ''showdown'']"

subsection \<open>Segments, transcripts and detected hands\<close>

record segment =
  seg_text :: string
  seg_start :: rat
  seg_end :: rat

record transcript =
  t_file :: string
  t_duration :: rat
  t_language :: string
  t_text :: string
  t_segments :: "segment list"
  t_processed_at :: string

record scores =
  sc_hand_start :: int
  sc_cards :: int
  sc_actions :: int
  sc_context :: int

record hand =
  timestamp :: rat
  duration :: rat
  hand_text :: string
  confidence :: rat
  hand_scores :: scores

subsection \<open>Scoring one segment\<close>

definition hand_start_score :: "string \<Rightarrow> int" where
  \<comment> \<open>2 for each pattern that is found\<close>
  "hand_start_score segment_lower =
     fold (\<lambda>pattern score. if re_search pattern segment_lower then score + 2 else score)
          hand_start_patterns 0"

definition card_score :: "string \<Rightarrow> int" where
  \<comment> \<open>the number of matches of each pattern\<close>
  "card_score segment_lower =
     fold (\<lambda>pattern score. score + int (length (findall pattern segment_lower)))
          card_patterns 0"

definition action_score :: "string \<Rightarrow> int" where
  \<comment> \<open>1 for each pattern that is found\<close>
  "action_score segment_lower =
     fold (\<lambda>pattern score. if re_search pattern segment_lower then score + 1 else score)
          action_patterns 0"

fun contains :: "string \<Rightarrow> string \<Rightarrow> bool" where
  \<comment> \<open>\<^verbatim>\<open>word in s\<close>\<close>
  "contains w [] = (w = [])"
| "contains w (x # s) = (starts_with w (x # s) \<or> contains w s)"

fun join :: "string \<Rightarrow> string list \<Rightarrow> string" where
  \<comment> \<open>\<^verbatim>\<open>sep.join(parts)\<close>\<close>
  "join sep [] = []"
| "join sep [p] = p"
| "join sep (p # ps) = p @ sep @ join sep ps"

definition context_window :: "segment list \<Rightarrow> nat \<Rightarrow> string list" where
  \<comment> \<open>the texts of segment \<open>i\<close> and of its neighbours; \<open>i < length segments\<close> in the loop\<close>
  "context_window segments i =
     (if 0 < i then [seg_text (segments ! (i - 1))] else [])
     @ [seg_text (segments ! i)]
     @ (if int i < int (length segments) - 1 then [seg_text (segments ! (i + 1))] else [])"

definition context_score :: "segment list \<Rightarrow> nat \<Rightarrow> int" where
  "context_score segments i =
     (let context_text = lower (join '' '' (context_window segments i))
      in if list_ex (\<lambda>word. contains word context_text) context_words then 1 else 0)"

definition segment_scores :: "segment list \<Rightarrow> nat \<Rightarrow> scores" where
  "segment_scores segments i =
     (let segment_lower = lower (seg_text (segments ! i))
      in \<lparr> sc_hand_start = hand_start_score segment_lower,
           sc_cards = card_score segment_lower,
           sc_actions = action_score segment_lower,
           sc_context = context_score segments i \<rparr>)"

definition total_score :: "scores \<Rightarrow> int" where
  "total_score sc = sc_hand_start sc + sc_cards sc + sc_actions sc + sc_context sc"

definition substantial :: "scores \<Rightarrow> bool" where
  \<comment> \<open>\<^verbatim>\<open>total_score >= 3 and (card_score >= 1 or hand_start_score >= 1)\<close>\<close>
  "substantial sc = (total_score sc \<ge> 3 \<and> (sc_cards sc \<ge> 1 \<or> sc_hand_start sc \<ge> 1))"

definition make_hand :: "segment \<Rightarrow> scores \<Rightarrow> hand" where
  \<comment> \<open>the dictionary appended to \<^verbatim>\<open>hands_detected\<close>\<close>
  "make_hand segment sc =
     \<lparr> timestamp = seg_start segment,
       duration = seg_end segment - seg_start segment,
       hand_text = seg_text segment,
       confidence = min (of_int (total_score sc) / 8) 1,
       hand_scores = sc \<rparr>"

definition scan_step :: "segment list \<Rightarrow> nat \<times> segment \<Rightarrow> hand list \<Rightarrow> hand list" where
  \<comment> \<open>one iteration of \<^verbatim>\<open>for i, segment in enumerate(segments)\<close>\<close>
  "scan_step segments = (\<lambda>(i, segment) hands_detected.
     (let sc = segment_scores segments i
      in if substantial sc then hands_detected @ [make_hand segment sc] else hands_detected))"

definition scan_segments :: "segment list \<Rightarrow> hand list" where
  \<comment> \<open>\<^verbatim>\<open>hands_detected\<close> when the loop ends, in the order of the transcript\<close>
  "scan_segments segments = fold (scan_step segments) (enumerate 0 segments) []"

definition sort_by_confidence :: "hand list \<Rightarrow> hand list" where
  \<comment> \<open>\<^verbatim>\<open>hands_detected.sort(key=lambda x: x["confidence"], reverse=True)\<close>: stable, and
      \<^verbatim>\<open>reverse=True\<close> keeps the order of elements with equal keys\<close>
  "sort_by_confidence hands = sort_key (\<lambda>x. - confidence x) hands"

definition detect_hands :: "transcript \<Rightarrow> hand list" where
  \<comment> \<open>the value returned; the line printed to standard output is left out\<close>
  "detect_hands transcript_data = sort_by_confidence (scan_segments (t_segments transcript_data))"



subsection \<open>Formatting\<close>

definition nl :: string where
  "nl = [CHR 0x0A]"

definition digit_char :: "nat \<Rightarrow> char" where
  "digit_char d = char_of (48 + d)"

fun str_nat :: "nat \<Rightarrow> string" where
  "str_nat n = (if n < 10 then [digit_char n] else str_nat (n div 10) @ [digit_char (n mod 10)])"

declare str_nat.simps [simp del]

definition str_int :: "int \<Rightarrow> string" where
  \<comment> \<open>\<^verbatim>\<open>str(n)\<close>, the conversion of \<^verbatim>\<open>{n}\<close> in an f-string\<close>
  "str_int n = (if n < 0 then ''-'' @ str_nat (nat (- n)) else str_nat (nat n))"

definition zfill :: "nat \<Rightarrow> string \<Rightarrow> string" where
  "zfill w s = replicate (w - length s) CHR ''0'' @ s"

definition format_02d :: "int \<Rightarrow> string" where
  \<comment> \<open>\<^verbatim>\<open>{n:02d}\<close>: zeros between the sign and the digits up to a width of 2\<close>
  "format_02d n =
     (if n < 0 then ''-'' @ zfill 1 (str_nat (nat (- n))) else zfill 2 (str_nat (nat n)))"

definition round_half_even :: "rat \<Rightarrow> nat" where
  \<comment> \<open>the nearest integer to a non-negative number, a tie going to the even one\<close>
  "round_half_even y =
     (let f = nat \<lfloor>y\<rfloor>; r = y - of_nat f
      in if r < 1 / 2 then f else if 1 / 2 < r then f + 1 else if even f then f else f + 1)"

definition format_fixed :: "nat \<Rightarrow> rat \<Rightarrow> string" where
  \<comment> \<open>\<^verbatim>\<open>{x:.Nf}\<close>: the decimal with \<open>N\<close> places nearest to the value of the float\<close>
  "format_fixed prec x =
     (let m = round_half_even (\<bar>x\<bar> * 10 ^ prec)
      in (if x < 0 then ''-'' else []) @ str_nat (m div 10 ^ prec)
         @ (if prec = 0 then [] else ''.'' @ zfill prec (str_nat (m mod 10 ^ prec))))"

definition strip :: "string \<Rightarrow> string" where
  \<comment> \<open>\<^verbatim>\<open>str.strip()\<close>\<close>
  "strip s = rev (dropWhile is_space (rev (dropWhile is_space s)))"

definition py_floordiv :: "rat \<Rightarrow> rat \<Rightarrow> rat" where
  \<comment> \<open>\<^verbatim>\<open>a // b\<close> on floats, for \<open>b \<noteq> 0\<close>\<close>
  "py_floordiv a b = of_int \<lfloor>a / b\<rfloor>"

definition py_mod :: "rat \<Rightarrow> rat \<Rightarrow> rat" where
  \<comment> \<open>\<^verbatim>\<open>a % b\<close> on floats, for \<open>b \<noteq> 0\<close>\<close>
  "py_mod a b = a - b * of_int \<lfloor>a / b\<rfloor>"

definition py_int :: "rat \<Rightarrow> int" where
  \<comment> \<open>\<^verbatim>\<open>int(x)\<close>: towards zero\<close>
  "py_int x = (if 0 \<le> x then \<lfloor>x\<rfloor> else \<lceil>x\<rceil>)"

subsection \<open>The report\<close>

datatype error = ZeroDivisionError

definition truediv :: "rat \<Rightarrow> int \<Rightarrow> error + rat" where
  \<comment> \<open>\<^verbatim>\<open>x / n\<close>\<close>
  "truediv x n = (if n = 0 then Inl ZeroDivisionError else Inr (x / of_int n))"

definition avg_confidence :: "hand list \<Rightarrow> error + rat" where
  "avg_confidence hands_detected =
     (if hands_detected \<noteq> []
      then truediv (sum_list (map confidence hands_detected)) (int (length hands_detected))
      else Inr 0)"

definition report_head :: "transcript \<Rightarrow> hand list \<Rightarrow> rat \<Rightarrow> string" where
  \<comment> \<open>the first f-string of \<^verbatim>\<open>generate_report\<close>; its second line is eight spaces\<close>
  "report_head transcript_data hands_detected avg =
     ''# Poker Hands Analysis'' @ nl
     @ ''        '' @ nl
     @ ''**Source:** '' @ t_file transcript_data @ nl
     @ ''**Duration:** '' @ format_fixed 1 (t_duration transcript_data) @ '' seconds'' @ nl
     @ ''**Language:** '' @ t_language transcript_data @ nl
     @ ''**Processed:** '' @ t_processed_at transcript_data @ nl
     @ nl
     @ ''## Summary'' @ nl
     @ ''- **Total hands detected:** '' @ str_int (int (length hands_detected)) @ nl
     @ ''- **Average confidence:** '' @ format_fixed 2 avg @ nl
     @ nl
     @ ''## Detected Hands'' @ nl
     @ nl"

definition timestamp_text :: "rat \<Rightarrow> string" where
  \<comment> \<open>\<^verbatim>\<open>{timestamp_min}:{timestamp_sec:02d}\<close>\<close>
  "timestamp_text t =
     (let timestamp_min = py_int (py_floordiv t 60);
          timestamp_sec = py_int (py_mod t 60)
      in str_int timestamp_min @ '':'' @ format_02d timestamp_sec)"

definition hand_entry :: "nat \<times> hand \<Rightarrow> string" where
  \<comment> \<open>the f-string added for hand number \<open>i\<close>\<close>
  "hand_entry = (\<lambda>(i, hand).
     ''### Hand '' @ str_int (int i) @ nl
     @ ''**Timestamp:** '' @ timestamp_text (timestamp hand) @ nl
     @ ''**Confidence:** '' @ format_fixed 2 (confidence hand) @ nl
     @ ''**Text:** '' @ strip (hand_text hand) @ nl
     @ nl
     @ ''---'' @ nl
     @ nl)"

definition generate_report :: "transcript \<Rightarrow> hand list \<Rightarrow> error + string" where
  \<comment> \<open>\<^verbatim>\<open>report_content\<close>, the text written to the output file, or the exception raised
      while it is built; the path of the file and the writing itself are left out\<close>
  "generate_report transcript_data hands_detected =
     (case avg_confidence hands_detected of
        Inl e \<Rightarrow> Inl e
      | Inr avg \<Rightarrow>
          Inr (fold (\<lambda>entry report_content. report_content @ hand_entry entry)
                    (enumerate 1 hands_detected)
                    (report_head transcript_data hands_detected avg)))"

abbreviation hand_at :: "segment list \<Rightarrow> nat \<Rightarrow> hand" where
  \<comment> \<open>the hand that the loop builds from segment \<open>i\<close> when it accepts it\<close>
  "hand_at segments i \<equiv> make_hand (segments ! i) (segment_scores segments i)"

subsection \<open>Example transcripts\<close>

definition scenario :: transcript where
  "scenario =
     \<lparr> t_file = ''episode.mp3'', t_duration = 12, t_language = ''en'',
       t_text = ''I had pocket aces preflop he raises to 200 flop comes king high'',
       t_segments =
         [\<lparr>seg_text = ''I had pocket aces preflop'', seg_start = 0, seg_end = 5\<rparr>,
          \<lparr>seg_text = ''he raises to 200'', seg_start = 5, seg_end = 8\<rparr>,
          \<lparr>seg_text = ''flop comes king high'', seg_start = 8, seg_end = 12\<rparr>],
       t_processed_at = ''2024-01-01T00:00:00'' \<rparr>"

definition silence_after_flop :: transcript where
  \<comment> \<open>a segment without text after a segment that names the flop\<close>
  "silence_after_flop =
     \<lparr> t_file = ''episode.mp3'', t_duration = 3, t_language = ''en'',
       t_text = ''the flop'',
       t_segments =
         [\<lparr>seg_text = ''the flop'', seg_start = 0, seg_end = 2\<rparr>,
          \<lparr>seg_text = [], seg_start = 2, seg_end = 3\<rparr>],
       t_processed_at = ''2024-01-01T00:00:00'' \<rparr>"

section \<open>Properties\<close>

subsection \<open>The loop over the segments\<close>

lemma fold_scan_step:
  "fold (scan_step segs) xs acc =
     acc @ concat (map (\<lambda>(i, seg). if substantial (segment_scores segs i)
                                    then [make_hand seg (segment_scores segs i)] else []) xs)"
  by (induction xs arbitrary: acc) (auto simp: scan_step_def Let_def)

lemma enumerate_nth: "enumerate 0 xs = map (\<lambda>i. (i, xs ! i)) [0..<length xs]"
  by (simp add: enumerate_eq_zip zip_eq_conv map_nth o_def)

lemma concat_map_if: "concat (map (\<lambda>i. if P i then [h i] else []) xs) = map h (filter P xs)"
  by (induction xs) auto

lemma scan_segments_eq:
  "scan_segments segs =
     map (hand_at segs) (filter (\<lambda>i. substantial (segment_scores segs i)) [0..<length segs])"
  unfolding scan_segments_def fold_scan_step enumerate_nth
  by (simp add: comp_def concat_map_if)

lemma set_detect_hands: "set (detect_hands t) = set (scan_segments (t_segments t))"
  by (simp add: detect_hands_def sort_by_confidence_def)

lemma in_scan_segments:
  "h \<in> set (scan_segments segs) \<longleftrightarrow>
     (\<exists>i < length segs. substantial (segment_scores segs i) \<and> h = hand_at segs i)"
  by (auto simp: scan_segments_eq)

lemma hand_scores_make [simp]: "hand_scores (make_hand seg sc) = sc"
  by (simp add: make_hand_def)

lemma confidence_make: "confidence (make_hand seg sc) = min (of_int (total_score sc) / 8) 1"
  by (simp add: make_hand_def)

lemma detected_substantial: "h \<in> set (detect_hands t) \<Longrightarrow> substantial (hand_scores h)"
  by (auto simp: set_detect_hands in_scan_segments)

subsection \<open>The three scores of a text\<close>

lemma hand_start_fold:
  "fold (\<lambda>pattern score. if re_search pattern s then score + 2 else score) ps (acc::int)
     = acc + 2 * int (length (filter (\<lambda>p. re_search p s) ps))"
  by (induction ps arbitrary: acc) auto

lemma action_fold:
  "fold (\<lambda>pattern score. if re_search pattern s then score + 1 else score) ps (acc::int)
     = acc + int (length (filter (\<lambda>p. re_search p s) ps))"
  by (induction ps arbitrary: acc) auto

lemma card_fold:
  "fold (\<lambda>pattern score. score + int (length (findall pattern s))) ps (acc::int)
     = acc + int (sum_list (map (\<lambda>p. length (findall p s)) ps))"
  by (induction ps arbitrary: acc) auto

lemma hand_start_score_eq:
  "hand_start_score s = 2 * int (length (filter (\<lambda>p. re_search p s) hand_start_patterns))"
  by (simp add: hand_start_score_def hand_start_fold)

lemma scores_nonneg:
  "0 \<le> hand_start_score s" "0 \<le> card_score s" "0 \<le> action_score s" "0 \<le> context_score segs i"
  by (simp_all add: hand_start_score_def hand_start_fold card_score_def card_fold
        action_score_def action_fold context_score_def Let_def)

lemma total_nonneg: "0 \<le> total_score (segment_scores segs i)"
  by (simp add: total_score_def segment_scores_def Let_def scores_nonneg)

lemma empty_text_zero: "hand_start_score [] = 0" "card_score [] = 0" "action_score [] = 0"
  by code_simp+

subsection \<open>The example transcripts, evaluated\<close>

lemma scenario_scores:
  "segment_scores (t_segments scenario) 0
     = \<lparr>sc_hand_start = 2, sc_cards = 2, sc_actions = 0, sc_context = 1\<rparr>"
  "segment_scores (t_segments scenario) (Suc 0)
     = \<lparr>sc_hand_start = 0, sc_cards = 2, sc_actions = 1, sc_context = 1\<rparr>"
  "segment_scores (t_segments scenario) 2
     = \<lparr>sc_hand_start = 2, sc_cards = 1, sc_actions = 0, sc_context = 1\<rparr>"
  by code_simp+

lemma scenario_length: "length (t_segments scenario) = 3"
  by (simp add: scenario_def)

lemma upt_3: "[0..<3] = [0, Suc 0, 2]"
  by (simp add: upt_rec)

lemma scenario_scan:
  "scan_segments (t_segments scenario) =
     [hand_at (t_segments scenario) 0, hand_at (t_segments scenario) (Suc 0),
      hand_at (t_segments scenario) 2]"
  by (simp add: scan_segments_eq scenario_length upt_3 scenario_scores substantial_def
        total_score_def)

lemma scenario_hands:
  "hand_at (t_segments scenario) 0 =
     \<lparr>timestamp = 0, duration = 5, hand_text = ''I had pocket aces preflop'', confidence = 5 / 8,
      hand_scores = \<lparr>sc_hand_start = 2, sc_cards = 2, sc_actions = 0, sc_context = 1\<rparr>\<rparr>"
  "hand_at (t_segments scenario) (Suc 0) =
     \<lparr>timestamp = 5, duration = 3, hand_text = ''he raises to 200'', confidence = 1 / 2,
      hand_scores = \<lparr>sc_hand_start = 0, sc_cards = 2, sc_actions = 1, sc_context = 1\<rparr>\<rparr>"
  "hand_at (t_segments scenario) 2 =
     \<lparr>timestamp = 8, duration = 4, hand_text = ''flop comes king high'', confidence = 1 / 2,
      hand_scores = \<lparr>sc_hand_start = 2, sc_cards = 1, sc_actions = 0, sc_context = 1\<rparr>\<rparr>"
  unfolding scenario_scores
  by (simp_all add: make_hand_def total_score_def scenario_def)

lemma scenario_detect:
  "detect_hands scenario =
     [hand_at (t_segments scenario) 0, hand_at (t_segments scenario) (Suc 0),
      hand_at (t_segments scenario) 2]"
  unfolding detect_hands_def scenario_scan sort_by_confidence_def
  by (simp add: scenario_hands)

lemma silence_scores:
  "segment_scores (t_segments silence_after_flop) (Suc 0)
     = \<lparr>sc_hand_start = 0, sc_cards = 0, sc_actions = 0, sc_context = 1\<rparr>"
  by code_simp

subsection \<open>The acceptance gate\<close>

text \<open>
  Claim C2. The hands returned by \<^verbatim>\<open>detect_hands\<close> are those of the segments whose scores
  satisfy \<open>total \<ge> 3\<close> and (\<open>cards \<ge> 1\<close> or \<open>hand_start \<ge> 1\<close>), sorted: the hand of segment
  \<open>i\<close> is in the result if and only if the scores of segment \<open>i\<close> pass this gate, and a
  segment with no card score and no hand-start score is never in the result, whatever
  its action and context scores are.
\<close>

theorem acceptance_gate:
  "detect_hands t =
     sort_by_confidence
       (map (hand_at (t_segments t))
            (filter (\<lambda>i. 3 \<le> total_score (segment_scores (t_segments t) i)
                         \<and> (1 \<le> sc_cards (segment_scores (t_segments t) i)
                            \<or> 1 \<le> sc_hand_start (segment_scores (t_segments t) i)))
                    [0..<length (t_segments t)]))
   \<and> (\<forall>i < length (t_segments t).
        hand_at (t_segments t) i \<in> set (detect_hands t) \<longleftrightarrow>
          (3 \<le> total_score (segment_scores (t_segments t) i)
           \<and> (1 \<le> sc_cards (segment_scores (t_segments t) i)
              \<or> 1 \<le> sc_hand_start (segment_scores (t_segments t) i))))
   \<and> (\<forall>i < length (t_segments t).
        sc_cards (segment_scores (t_segments t) i) = 0
        \<and> sc_hand_start (segment_scores (t_segments t) i) = 0
        \<longrightarrow> hand_at (t_segments t) i \<notin> set (detect_hands t))"
proof -
  let ?segs = "t_segments t"
  have mem: "hand_at ?segs i \<in> set (detect_hands t) \<longleftrightarrow> substantial (segment_scores ?segs i)"
    if "i < length ?segs" for i
  proof
    assume "hand_at ?segs i \<in> set (detect_hands t)"
    then show "substantial (segment_scores ?segs i)"
      using detected_substantial by fastforce
  next
    assume "substantial (segment_scores ?segs i)"
    with that show "hand_at ?segs i \<in> set (detect_hands t)"
      by (auto simp: set_detect_hands in_scan_segments)
  qed
  have first: "detect_hands t = sort_by_confidence (map (hand_at ?segs)
      (filter (\<lambda>i. substantial (segment_scores ?segs i)) [0..<length ?segs]))"
    by (simp add: detect_hands_def scan_segments_eq)
  show ?thesis
    using first mem by (simp add: substantial_def)
qed

theorem acceptance_gate_witness:
  "Suc 0 < length (t_segments scenario)
   \<and> 3 \<le> total_score (segment_scores (t_segments scenario) (Suc 0))
   \<and> 1 \<le> sc_cards (segment_scores (t_segments scenario) (Suc 0))
   \<and> hand_at (t_segments scenario) (Suc 0) \<in> set (detect_hands scenario)"
proof -
  have l: "Suc 0 < length (t_segments scenario)" by (simp add: scenario_length)
  have g: "3 \<le> total_score (segment_scores (t_segments scenario) (Suc 0))
     \<and> 1 \<le> sc_cards (segment_scores (t_segments scenario) (Suc 0))"
    by (simp add: scenario_scores total_score_def)
  from acceptance_gate [of scenario, THEN conjunct2, THEN conjunct1, rule_format, OF l] g
  have "hand_at (t_segments scenario) (Suc 0) \<in> set (detect_hands scenario)" by blast
  with l g show ?thesis by blast
qed

subsection \<open>Confidence\<close>

text \<open>
  Claim C3. The confidence computed from the scores of a segment is
  \<open>min (total / 8) 1\<close> with \<open>total = hand_start + cards + actions + context\<close>; it lies
  between 0 and 1 and is 1 whenever \<open>total \<ge> 8\<close>. The source computes it for the
  segments that pass the gate, so the same holds of every hand returned.
\<close>

theorem confidence_formula:
  "confidence (hand_at segs i)
     = min (of_int (sc_hand_start (segment_scores segs i) + sc_cards (segment_scores segs i)
                    + sc_actions (segment_scores segs i) + sc_context (segment_scores segs i)) / 8) 1
   \<and> 0 \<le> confidence (hand_at segs i) \<and> confidence (hand_at segs i) \<le> 1
   \<and> (8 \<le> total_score (segment_scores segs i) \<longrightarrow> confidence (hand_at segs i) = 1)
   \<and> (\<forall>h \<in> set (detect_hands t).
        confidence h = min (of_int (total_score (hand_scores h)) / 8) 1
        \<and> 0 \<le> confidence h \<and> confidence h \<le> 1
        \<and> (8 \<le> total_score (hand_scores h) \<longrightarrow> confidence h = 1))"
proof -
  have a: "0 \<le> (of_int (total_score (segment_scores s j)) :: rat)" for s j
    using total_nonneg [of s j] by simp
  have b: "confidence (hand_at s j) = min (of_int (total_score (segment_scores s j)) / 8) 1
     \<and> 0 \<le> confidence (hand_at s j) \<and> confidence (hand_at s j) \<le> 1
     \<and> (8 \<le> total_score (segment_scores s j) \<longrightarrow> confidence (hand_at s j) = 1)" for s j
    using a [of s j] by (simp add: confidence_make min_def)
  have e: "\<forall>h \<in> set (detect_hands t).
        confidence h = min (of_int (total_score (hand_scores h)) / 8) 1
        \<and> 0 \<le> confidence h \<and> confidence h \<le> 1
        \<and> (8 \<le> total_score (hand_scores h) \<longrightarrow> confidence h = 1)"
  proof
    fix h assume "h \<in> set (detect_hands t)"
    then obtain j where j: "h = hand_at (t_segments t) j"
      by (auto simp: set_detect_hands in_scan_segments)
    have hs: "hand_scores h = segment_scores (t_segments t) j"
      unfolding j by simp
    show "confidence h = min (of_int (total_score (hand_scores h)) / 8) 1
        \<and> 0 \<le> confidence h \<and> confidence h \<le> 1
        \<and> (8 \<le> total_score (hand_scores h) \<longrightarrow> confidence h = 1)"
      unfolding hs unfolding j by (rule b)
  qed
  have d: "confidence (hand_at segs i)
     = min (of_int (sc_hand_start (segment_scores segs i) + sc_cards (segment_scores segs i)
                    + sc_actions (segment_scores segs i) + sc_context (segment_scores segs i)) / 8) 1"
    using b [of segs i] unfolding total_score_def by blast
  from d b [of segs i] e show ?thesis by blast
qed

theorem confidence_formula_witness:
  "hand_at (t_segments scenario) 0 \<in> set (detect_hands scenario)
   \<and> total_score (hand_scores (hand_at (t_segments scenario) 0)) = 5
   \<and> confidence (hand_at (t_segments scenario) 0) = 5 / 8"
proof -
  have m: "hand_at (t_segments scenario) 0 \<in> set (detect_hands scenario)"
    by (simp add: scenario_detect)
  have s: "total_score (hand_scores (hand_at (t_segments scenario) 0)) = 5"
    by (simp add: scenario_scores total_score_def)
  from confidence_formula [of "[]" 0 scenario, THEN conjunct2, THEN conjunct2, THEN conjunct2,
      THEN conjunct2, rule_format, OF m]
  have "confidence (hand_at (t_segments scenario) 0)
      = min (of_int (total_score (hand_scores (hand_at (t_segments scenario) 0))) / 8) 1"
    by blast
  then have "confidence (hand_at (t_segments scenario) 0) = 5 / 8"
    unfolding s by simp
  with m s show ?thesis by blast
qed

text \<open>
  Claim C10. Every hand returned by \<^verbatim>\<open>detect_hands\<close> has a confidence of at least \<open>3/8\<close>.
\<close>

theorem confidence_at_least:
  "\<forall>h \<in> set (detect_hands t). 3 / 8 \<le> confidence h"
proof
  fix h assume "h \<in> set (detect_hands t)"
  then obtain j where j: "substantial (segment_scores (t_segments t) j)"
      "h = hand_at (t_segments t) j"
    by (auto simp: set_detect_hands in_scan_segments)
  from j(1) have "(3::rat) \<le> of_int (total_score (segment_scores (t_segments t) j))"
    unfolding substantial_def by (metis of_int_le_iff of_int_numeral)
  then show "3 / 8 \<le> confidence h"
    unfolding j(2) confidence_make by (simp add: min_def)
qed

theorem confidence_at_least_witness:
  "hand_at (t_segments scenario) 2 \<in> set (detect_hands scenario)
   \<and> confidence (hand_at (t_segments scenario) 2) = 1 / 2
   \<and> (3::rat) / 8 \<le> confidence (hand_at (t_segments scenario) 2)"
proof -
  have m: "hand_at (t_segments scenario) 2 \<in> set (detect_hands scenario)"
    by (simp add: scenario_detect)
  have c: "confidence (hand_at (t_segments scenario) 2) = 1 / 2"
    by (simp add: scenario_hands)
  from confidence_at_least [of scenario, rule_format, OF m] m c show ?thesis by blast
qed

subsection \<open>The hand-start score\<close>

text \<open>
  Claim C9. The hand-start score of a text is twice the number of hand-start patterns
  found in it: an even, non-negative integer, so that \<open>hand_start \<ge> 1\<close> in the gate says
  the same as \<open>hand_start \<ge> 2\<close>.
\<close>

theorem hand_start_score_even:
  "hand_start_score s = 2 * int (length (filter (\<lambda>p. re_search p s) hand_start_patterns))
   \<and> even (hand_start_score s) \<and> 0 \<le> hand_start_score s
   \<and> (1 \<le> hand_start_score s \<longleftrightarrow> 2 \<le> hand_start_score s)
   \<and> (substantial (segment_scores segs i) \<longleftrightarrow>
        3 \<le> total_score (segment_scores segs i)
        \<and> (1 \<le> sc_cards (segment_scores segs i) \<or> 2 \<le> sc_hand_start (segment_scores segs i)))"
proof -
  have a: "(1 \<le> hand_start_score u \<longleftrightarrow> 2 \<le> hand_start_score u)" for u
    unfolding hand_start_score_eq by presburger
  have "sc_hand_start (segment_scores segs i) = hand_start_score (lower (seg_text (segs ! i)))"
    by (simp add: segment_scores_def Let_def)
  then have b: "substantial (segment_scores segs i) \<longleftrightarrow>
        3 \<le> total_score (segment_scores segs i)
        \<and> (1 \<le> sc_cards (segment_scores segs i) \<or> 2 \<le> sc_hand_start (segment_scores segs i))"
    using a [of "lower (seg_text (segs ! i))"] by (simp add: substantial_def)
  have c: "hand_start_score s = 2 * int (length (filter (\<lambda>p. re_search p s) hand_start_patterns))
   \<and> even (hand_start_score s) \<and> 0 \<le> hand_start_score s"
    unfolding hand_start_score_eq by simp
  show ?thesis using a [of s] b c by blast
qed

theorem hand_start_score_even_witness:
  "hand_start_score ''i had pocket aces preflop'' = 2
   \<and> length (filter (\<lambda>p. re_search p ''i had pocket aces preflop'') hand_start_patterns) = 1"
proof -
  have v: "hand_start_score ''i had pocket aces preflop'' = 2" by code_simp
  from hand_start_score_even [of "''i had pocket aces preflop''" "[]" 0, THEN conjunct1]
  have "int (length (filter (\<lambda>p. re_search p ''i had pocket aces preflop'') hand_start_patterns)) = 1"
    unfolding v by linarith
  with v show ?thesis by linarith
qed

subsection \<open>The order of the result\<close>

text \<open>
  Claim C4. The list returned by \<^verbatim>\<open>detect_hands\<close> is sorted by confidence, highest
  first; the hands of one confidence appear in it as they appear in the transcript
  (the accepted segments taken by increasing index); and it has at most as many hands
  as the transcript has segments.
\<close>

theorem ranked_output:
  "sorted_wrt (\<lambda>a b. confidence a \<ge> confidence b) (detect_hands t)
   \<and> (\<forall>k. filter (\<lambda>h. confidence h = k) (detect_hands t)
          = filter (\<lambda>h. confidence h = k)
              (map (hand_at (t_segments t))
                 (filter (\<lambda>i. substantial (segment_scores (t_segments t) i))
                         [0..<length (t_segments t)])))
   \<and> length (detect_hands t) \<le> length (t_segments t)"
proof -
  let ?xs = "scan_segments (t_segments t)"
  have "sorted (map (\<lambda>x. - confidence x) (sort_key (\<lambda>x. - confidence x) ?xs))"
    by (rule sorted_sort_key)
  then have s: "sorted_wrt (\<lambda>a b. confidence a \<ge> confidence b) (detect_hands t)"
    by (simp add: detect_hands_def sort_by_confidence_def sorted_wrt_map)
  have st: "filter (\<lambda>h. confidence h = k) (detect_hands t) = filter (\<lambda>h. confidence h = k) ?xs"
    for k
    using sort_key_stable [of "\<lambda>x. - confidence x" "- k" ?xs]
    by (simp add: detect_hands_def sort_by_confidence_def)
  have l: "length (detect_hands t) \<le> length (t_segments t)"
    using length_filter_le [of "\<lambda>i. substantial (segment_scores (t_segments t) i)"
        "[0..<length (t_segments t)]"]
    by (simp add: detect_hands_def sort_by_confidence_def scan_segments_eq)
  show ?thesis using s st l by (simp add: scan_segments_eq)
qed

theorem ranked_output_witness:
  "filter (\<lambda>h. confidence h = 1 / 2) (detect_hands scenario)
     = [hand_at (t_segments scenario) (Suc 0), hand_at (t_segments scenario) 2]
   \<and> length (detect_hands scenario) = 3 \<and> length (t_segments scenario) = 3"
proof -
  from ranked_output [of scenario, THEN conjunct2, THEN conjunct1, rule_format, of "1 / 2"]
  have "filter (\<lambda>h. confidence h = 1 / 2) (detect_hands scenario)
     = filter (\<lambda>h. confidence h = 1 / 2) (scan_segments (t_segments scenario))"
    unfolding scan_segments_eq .
  also have "\<dots> = [hand_at (t_segments scenario) (Suc 0), hand_at (t_segments scenario) 2]"
    unfolding scenario_scan by (simp add: scenario_hands)
  finally show ?thesis
    by (simp add: scenario_detect scenario_length)
qed

subsection \<open>Determinism\<close>



subsection \<open>The scenario of three segments\<close>

lemma raises_cards:
  "map (\<lambda>p. findall p ''he raises to 200'') card_patterns = [[''200''], [], [], [''20'']]"
  by code_simp

text \<open>
  Claim C1, as the code has it. On the transcript \<open>scenario\<close>, \<^verbatim>\<open>detect_hands\<close> returns
  three hands. The first segment is accepted with a total of 5, a card score of 2 and
  the confidence \<open>min (5/8) 1 = 5/8\<close>. The second segment, \<^verbatim>\<open>he raises to 200\<close>, is accepted
  as well: the first card pattern finds \<^verbatim>\<open>200\<close> and the fourth finds \<^verbatim>\<open>20\<close>, which gives
  a card score of 2 and, with the action and the context, a total of 4 and the
  confidence \<open>1/2\<close>.
\<close>

theorem scenario_detected:
  "detect_hands scenario =
     [\<lparr>timestamp = 0, duration = 5, hand_text = ''I had pocket aces preflop'', confidence = 5 / 8,
       hand_scores = \<lparr>sc_hand_start = 2, sc_cards = 2, sc_actions = 0, sc_context = 1\<rparr>\<rparr>,
      \<lparr>timestamp = 5, duration = 3, hand_text = ''he raises to 200'', confidence = 1 / 2,
       hand_scores = \<lparr>sc_hand_start = 0, sc_cards = 2, sc_actions = 1, sc_context = 1\<rparr>\<rparr>,
      \<lparr>timestamp = 8, duration = 4, hand_text = ''flop comes king high'', confidence = 1 / 2,
       hand_scores = \<lparr>sc_hand_start = 2, sc_cards = 1, sc_actions = 0, sc_context = 1\<rparr>\<rparr>]
   \<and> map (\<lambda>p. findall p (lower ''he raises to 200'')) card_patterns
       = [[''200''], [], [], [''20'']]"
proof -
  have "lower ''he raises to 200'' = ''he raises to 200''" by code_simp
  then show ?thesis
    by (simp only: scenario_detect scenario_hands raises_cards)
qed

text \<open>The second segment of the scenario is among the hands returned.\<close>

theorem scenario_counterexample:
  "seg_text (t_segments scenario ! 1) = ''he raises to 200''
   \<and> sc_hand_start (segment_scores (t_segments scenario) 1) = 0
   \<and> sc_cards (segment_scores (t_segments scenario) 1) = 2
   \<and> hand_at (t_segments scenario) 1 \<in> set (detect_hands scenario)"
  by (simp add: scenario_detect scenario_scores) (simp add: scenario_def)

subsection \<open>Segments without text\<close>

lemma segment_scores_empty:
  assumes "seg_text (segs ! i) = []"
  shows "sc_hand_start (segment_scores segs i) = 0" "sc_cards (segment_scores segs i) = 0"
    "sc_actions (segment_scores segs i) = 0"
    "sc_context (segment_scores segs i) = 0 \<or> sc_context (segment_scores segs i) = 1"
  using assms
  by (simp_all add: segment_scores_def Let_def lower_def empty_text_zero context_score_def)

text \<open>
  Claim C5, as the code has it. For a segment whose text is empty, the hand-start, card
  and action scores are zero and the segment is not among the hands returned. Its
  context score is computed from the texts of its neighbours as well, and is 0 or 1.
\<close>

theorem empty_text_scores:
  assumes "i < length (t_segments t)" and "seg_text (t_segments t ! i) = []"
  shows "sc_hand_start (segment_scores (t_segments t) i) = 0
    \<and> sc_cards (segment_scores (t_segments t) i) = 0
    \<and> sc_actions (segment_scores (t_segments t) i) = 0
    \<and> (sc_context (segment_scores (t_segments t) i) = 0
       \<or> sc_context (segment_scores (t_segments t) i) = 1)
    \<and> hand_at (t_segments t) i \<notin> set (detect_hands t)"
proof -
  note z = segment_scores_empty [OF assms(2)]
  have "\<not> substantial (segment_scores (t_segments t) i)"
    using z by (auto simp: substantial_def total_score_def)
  then have "hand_at (t_segments t) i \<notin> set (detect_hands t)"
    using detected_substantial [of "hand_at (t_segments t) i" t] by auto
  with z show ?thesis by blast
qed

theorem empty_text_scores_witness:
  "Suc 0 < length (t_segments silence_after_flop)
   \<and> seg_text (t_segments silence_after_flop ! Suc 0) = []
   \<and> sc_cards (segment_scores (t_segments silence_after_flop) (Suc 0)) = 0
   \<and> hand_at (t_segments silence_after_flop) (Suc 0) \<notin> set (detect_hands silence_after_flop)"
proof -
  have l: "Suc 0 < length (t_segments silence_after_flop)"
    by (simp add: silence_after_flop_def)
  have e: "seg_text (t_segments silence_after_flop ! Suc 0) = []"
    by (simp add: silence_after_flop_def)
  from empty_text_scores [OF l e] l e show ?thesis by blast
qed

text \<open>
  In \<open>silence_after_flop\<close> the second segment has no text and a context score of 1: the
  segment before it names the flop.
\<close>

theorem empty_text_counterexample:
  "seg_text (t_segments silence_after_flop ! 1) = []
   \<and> sc_context (segment_scores (t_segments silence_after_flop) 1) = 1"
  by (simp add: silence_scores) (simp add: silence_after_flop_def)

subsection \<open>The report\<close>





lemma format_fixed_2_zero: "format_fixed 2 0 = ''0.00''"
  by code_simp

lemma str_int_zero: "str_int 0 = ''0''"
  by code_simp

text \<open>
  Claim C6. For an empty list of hands \<^verbatim>\<open>generate_report\<close> raises no exception: the mean
  is not computed by a division, the summary gives 0 hands and the average confidence
  \<^verbatim>\<open>0.00\<close>, and the report ends after the heading of the detected hands, with no entry.
\<close>

theorem empty_report:
  "generate_report t [] =
     Inr (''# Poker Hands Analysis'' @ nl
          @ ''        '' @ nl
          @ ''**Source:** '' @ t_file t @ nl
          @ ''**Duration:** '' @ format_fixed 1 (t_duration t) @ '' seconds'' @ nl
          @ ''**Language:** '' @ t_language t @ nl
          @ ''**Processed:** '' @ t_processed_at t @ nl
          @ nl
          @ ''## Summary'' @ nl
          @ ''- **Total hands detected:** 0'' @ nl
          @ ''- **Average confidence:** 0.00'' @ nl
          @ nl
          @ ''## Detected Hands'' @ nl
          @ nl)
   \<and> avg_confidence [] = Inr 0"
  by (simp add: generate_report_def avg_confidence_def report_head_def format_fixed_2_zero str_int_zero)








end
